theory Spec2Isabelle
  imports Complex_Main "HOL-Library.Signed_Division"
begin

section \<open>JavaScript primitives used by the components\<close>

text \<open>
  A JavaScript \<open>number\<close> that holds a slide index or a quantity is modelled as an
  unbounded \<open>int\<close>, a price as an exact \<open>rat\<close>: the rounding of IEEE doubles (beyond
  \<open>2^53\<close> for integers) is outside the model. \<open>null\<close> and \<open>undefined\<close> are both
  \<open>None\<close>: the operators \<open>??\<close> and \<open>?.\<close> of the source do not tell them apart.
\<close>

text \<open>
  The remainder operator \<open>%\<close>: the result takes the sign of the dividend. With divisor
  \<open>0\<close> JavaScript gives \<open>NaN\<close>; every call below has a positive divisor
  (see \<open>items_static_nonempty\<close> and the guards of the gallery variant).
\<close>

definition js_rem :: "int \<Rightarrow> int \<Rightarrow> int" where
  "js_rem a b = a smod b"

text \<open>\<open>a ?? b\<close> on an optional value.\<close>

definition nullish :: "'a option \<Rightarrow> 'a option \<Rightarrow> 'a option" where
  "nullish a b = (case a of Some x \<Rightarrow> Some x | None \<Rightarrow> b)"

text \<open>Truthiness of a \<open>string | null\<close>: \<open>!s\<close> holds for \<open>null\<close> and for the empty string.\<close>

definition truthy :: "string option \<Rightarrow> bool" where
  "truthy s = (case s of None \<Rightarrow> False | Some t \<Rightarrow> t \<noteq> [])"

text \<open>
  \<open>parseInt(s, 10)\<close>: leading white space is skipped, one sign is read, then the longest
  run of decimal digits; no digit gives \<open>NaN\<close>, here \<open>None\<close>. Only the ASCII white space
  characters are modelled.
\<close>

definition is_space :: "char \<Rightarrow> bool" where
  "is_space c = (c \<in> set [CHR '' '', CHR 0x09, CHR 0x0A, CHR 0x0B, CHR 0x0C, CHR 0x0D])"

definition is_digit :: "char \<Rightarrow> bool" where
  "is_digit c = (48 \<le> (of_char c :: nat) \<and> (of_char c :: nat) \<le> 57)"

definition digit_value :: "char \<Rightarrow> int" where
  "digit_value c = int (of_char c :: nat) - 48"

definition digits_value :: "string \<Rightarrow> int" where
  "digits_value z = foldl (\<lambda>a c. 10 * a + digit_value c) 0 z"

definition parseInt :: "string \<Rightarrow> int option" where
  "parseInt s =
     (let t = dropWhile is_space s;
          sign = (case t of c # _ \<Rightarrow> if c = CHR ''-'' then - 1 else 1 | [] \<Rightarrow> (1::int));
          r = (case t of c # u \<Rightarrow> if c = CHR ''-'' \<or> c = CHR ''+'' then u else t | [] \<Rightarrow> t);
          z = takeWhile is_digit r
      in if z = [] then None else Some (sign * digits_value z))"

text \<open>\<open>String(n)\<close> for an integer \<open>n\<close>: its decimal digits.\<close>

fun string_of_nat :: "nat \<Rightarrow> string" where
  "string_of_nat n =
     (if n < 10 then [''0123456789'' ! n]
      else string_of_nat (n div 10) @ [''0123456789'' ! (n mod 10)])"

definition string_of_int :: "int \<Rightarrow> string" where
  "string_of_int k = (if k < 0 then CHR ''-'' # string_of_nat (nat (- k)) else string_of_nat (nat k))"

section \<open>RunningCarousel\<close>

text \<open>
  Both variants keep \<open>index\<close> and \<open>paused\<close> and step the index with the same function
  \<open>go\<close>: \<open>setIndex((i) => (i + dir + items.length) % items.length)\<close>, \<open>dir\<close> being \<open>-1\<close>
  or \<open>1\<close>. The timer's callback is \<open>setIndex((i) => (i + 1) % items.length)\<close>.
\<close>

definition go :: "nat \<Rightarrow> int \<Rightarrow> int \<Rightarrow> int" where
  "go n dir i = js_rem (i + dir + int n) (int n)"

definition tick :: "nat \<Rightarrow> int \<Rightarrow> int" where
  "tick n i = js_rem (i + 1) (int n)"

record carousel_props =
  showArrows :: bool
  showDots :: bool

definition default_props :: carousel_props where
  "default_props = \<lparr>showArrows = True, showDots = True\<rparr>"

datatype carousel_event =
    ClickPrev
  | ClickNext
  | ClickDot nat
  | TimerTick
  | MouseEnter
  | MouseLeave

subsection \<open>The gallery variant (items fetched from the gallery service)\<close>

datatype image_field = ImageString string | ImageFile | ImageNull

record GaleriItem =
  g_id :: int
  g_title :: string
  g_slug :: string
  g_description :: string
  g_published_at :: string
  g_image :: image_field

definition items_gallery :: "GaleriItem list option \<Rightarrow> string list" where
  "items_gallery d =
     filter (\<lambda>u. length u > 0)
       (map (\<lambda>it. case g_image it of ImageString s \<Rightarrow> s | _ \<Rightarrow> [])
         (case d of None \<Rightarrow> [] | Some l \<Rightarrow> l))"

record gallery_state =
  g_items :: "string list"
  g_index :: int
  g_paused :: bool
  g_isLoading :: bool
  g_isError :: bool

definition mount_gallery :: "GaleriItem list option \<Rightarrow> bool \<Rightarrow> bool \<Rightarrow> gallery_state" where
  "mount_gallery d loading err =
     \<lparr>g_items = items_gallery d, g_index = 0, g_paused = False,
      g_isLoading = loading, g_isError = err\<rparr>"

text \<open>The placeholder panel replaces the track while loading, on error and with no item.\<close>

definition track_gallery :: "gallery_state \<Rightarrow> bool" where
  "track_gallery s = (\<not> g_isLoading s \<and> \<not> (g_isError s \<or> length (g_items s) = 0))"

definition arrows_gallery :: "carousel_props \<Rightarrow> gallery_state \<Rightarrow> bool" where
  "arrows_gallery p s = (track_gallery s \<and> showArrows p \<and> length (g_items s) > 1)"

definition dots_gallery :: "carousel_props \<Rightarrow> gallery_state \<Rightarrow> bool" where
  "dots_gallery p s = (track_gallery s \<and> showDots p \<and> length (g_items s) > 1)"

text \<open>The autoplay effect returns before arming the timer when paused or with \<open>length \<le> 1\<close>.\<close>

definition timer_gallery :: "gallery_state \<Rightarrow> bool" where
  "timer_gallery s = (\<not> (g_paused s \<or> length (g_items s) \<le> 1))"

definition step_gallery :: "carousel_props \<Rightarrow> carousel_event \<Rightarrow> gallery_state \<Rightarrow> gallery_state" where
  "step_gallery p ev s =
     (case ev of
        ClickPrev \<Rightarrow>
          if arrows_gallery p s then s\<lparr>g_index := go (length (g_items s)) (- 1) (g_index s)\<rparr> else s
      | ClickNext \<Rightarrow>
          if arrows_gallery p s then s\<lparr>g_index := go (length (g_items s)) 1 (g_index s)\<rparr> else s
      | ClickDot j \<Rightarrow>
          if dots_gallery p s \<and> j < length (g_items s) then s\<lparr>g_index := int j\<rparr> else s
      | TimerTick \<Rightarrow>
          if timer_gallery s then s\<lparr>g_index := tick (length (g_items s)) (g_index s)\<rparr> else s
      | MouseEnter \<Rightarrow> if track_gallery s then s\<lparr>g_paused := True\<rparr> else s
      | MouseLeave \<Rightarrow> if track_gallery s then s\<lparr>g_paused := False\<rparr> else s)"

text \<open>
  A new query result: the items are recomputed, and the effect on \<open>[items.length]\<close> sets
  the index to \<open>0\<close> when the length differs from the one of the last render.
\<close>

definition refetch_gallery ::
    "GaleriItem list option \<Rightarrow> bool \<Rightarrow> bool \<Rightarrow> gallery_state \<Rightarrow> gallery_state" where
  "refetch_gallery d loading err s =
     (let xs = items_gallery d;
          s' = s\<lparr>g_items := xs, g_isLoading := loading, g_isError := err\<rparr>
      in if length xs \<noteq> length (g_items s) then s'\<lparr>g_index := 0\<rparr> else s')"

definition run_gallery :: "carousel_props \<Rightarrow> carousel_event list \<Rightarrow> gallery_state \<Rightarrow> gallery_state" where
  "run_gallery p evs s = foldl (\<lambda>t ev. step_gallery p ev t) s evs"

subsection \<open>The static variant (items from the \<open>images\<close> prop)\<close>

definition DEFAULT_IMAGE :: string where
  "DEFAULT_IMAGE = ''https://i.pinimg.com/1200x/dc/28/77/dc2877f08ba923ba34c8fa70bae94128.jpg''"

text \<open>\<open>images?.length ? images : [DEFAULT_IMAGE, DEFAULT_IMAGE, DEFAULT_IMAGE]\<close>\<close>

definition items_static :: "string list option \<Rightarrow> string list" where
  "items_static images =
     (case images of
        None \<Rightarrow> [DEFAULT_IMAGE, DEFAULT_IMAGE, DEFAULT_IMAGE]
      | Some xs \<Rightarrow> if length xs \<noteq> 0 then xs else [DEFAULT_IMAGE, DEFAULT_IMAGE, DEFAULT_IMAGE])"

record static_state =
  s_items :: "string list"
  s_index :: int
  s_paused :: bool

definition mount_static :: "string list option \<Rightarrow> static_state" where
  "mount_static images = \<lparr>s_items = items_static images, s_index = 0, s_paused = False\<rparr>"

definition arrows_static :: "carousel_props \<Rightarrow> static_state \<Rightarrow> bool" where
  "arrows_static p s = showArrows p"

definition dots_static :: "carousel_props \<Rightarrow> static_state \<Rightarrow> bool" where
  "dots_static p s = showDots p"

text \<open>The autoplay effect of this variant returns early only when paused.\<close>

definition timer_static :: "static_state \<Rightarrow> bool" where
  "timer_static s = (\<not> s_paused s)"

definition step_static :: "carousel_props \<Rightarrow> carousel_event \<Rightarrow> static_state \<Rightarrow> static_state" where
  "step_static p ev s =
     (case ev of
        ClickPrev \<Rightarrow>
          if arrows_static p s then s\<lparr>s_index := go (length (s_items s)) (- 1) (s_index s)\<rparr> else s
      | ClickNext \<Rightarrow>
          if arrows_static p s then s\<lparr>s_index := go (length (s_items s)) 1 (s_index s)\<rparr> else s
      | ClickDot j \<Rightarrow>
          if dots_static p s \<and> j < length (s_items s) then s\<lparr>s_index := int j\<rparr> else s
      | TimerTick \<Rightarrow>
          if timer_static s then s\<lparr>s_index := tick (length (s_items s)) (s_index s)\<rparr> else s
      | MouseEnter \<Rightarrow> s\<lparr>s_paused := True\<rparr>
      | MouseLeave \<Rightarrow> s\<lparr>s_paused := False\<rparr>)"

text \<open>A new \<open>images\<close> prop: the items are recomputed; no effect of this variant touches the index.\<close>

definition rerender_static :: "string list option \<Rightarrow> static_state \<Rightarrow> static_state" where
  "rerender_static images s = s\<lparr>s_items := items_static images\<rparr>"

definition run_static :: "carousel_props \<Rightarrow> carousel_event list \<Rightarrow> static_state \<Rightarrow> static_state" where
  "run_static p evs s = foldl (\<lambda>t ev. step_static p ev t) s evs"

section \<open>ProductSale\<close>

subsection \<open>Items: from a product of the listing to a sale item\<close>

definition FALLBACK_IMG :: string where
  "FALLBACK_IMG = ''https://placehold.co/800x1066/efefef/444?text=Product''"

record Color =
  c_name :: string
  c_hex :: string

record SaleItem =
  it_id :: string
  it_name :: string
  it_price :: rat
  it_was :: "rat option"
  it_href :: string
  it_image :: "string option"
  it_images :: "string list option"
  it_desc :: "string option"
  it_rating :: "rat option"
  it_reviews :: "rat option"
  it_stock :: "rat option"
  it_sku :: "string option"
  it_colors :: "Color list option"
  it_sizes :: "string list option"

definition DEF_COLORS :: "Color list" where
  "DEF_COLORS =
     [\<lparr>c_name = ''Navy'', c_hex = ''#1f2937''\<rparr>,
      \<lparr>c_name = ''Black'', c_hex = ''#111827''\<rparr>,
      \<lparr>c_name = ''White'', c_hex = ''#F9FAFB''\<rparr>,
      \<lparr>c_name = ''Grey'', c_hex = ''#6b7280''\<rparr>]"

definition DEF_SIZES :: "string list" where
  "DEF_SIZES = [''S'', ''M'', ''L'', ''XL'', ''XXL'']"

text \<open>
  The type \<open>Product\<close> is imported by the source and read through casts to records of
  optional fields; the record below has the fields those casts read.
\<close>

datatype id_value = IdNumber int | IdString string

record media_entry =
  original_url :: "string option"

record Product =
  p_id :: "id_value option"
  p_slug :: "string option"
  p_name :: "string option"
  p_title :: "string option"
  p_price :: "rat option"
  p_selling_price :: "rat option"
  p_final_price :: "rat option"
  p_base_price :: "rat option"
  p_compare_at_price :: "rat option"
  p_original_price :: "rat option"
  p_normal_price :: "rat option"
  p_was :: "rat option"
  p_image :: "string option"
  p_thumbnail :: "string option"
  p_images :: "string list option"
  p_media :: "media_entry list option"
  p_description :: "string option"
  p_rating :: "rat option"
  p_reviews_count :: "rat option"
  p_stock :: "rat option"
  p_sku :: "string option"

definition String_id :: "id_value \<Rightarrow> string" where
  "String_id v = (case v of IdNumber k \<Rightarrow> string_of_int k | IdString s \<Rightarrow> s)"

text \<open>\<open>xs && xs[0]\<close> on an optional array: an array is truthy, its missing element is \<open>undefined\<close>.\<close>

definition first_of :: "'a list option \<Rightarrow> 'a option" where
  "first_of xs = (case xs of None \<Rightarrow> None | Some [] \<Rightarrow> None | Some (x # _) \<Rightarrow> Some x)"

definition getProductImage :: "Product \<Rightarrow> string option" where
  "getProductImage p =
     nullish (p_image p)
       (nullish (p_thumbnail p)
         (nullish (first_of (p_images p))
           (nullish (case first_of (p_media p) of None \<Rightarrow> None | Some m \<Rightarrow> original_url m)
             None)))"

definition getProductSlug :: "Product \<Rightarrow> string" where
  "getProductSlug p =
     (case p_slug p of
        Some s \<Rightarrow> s
      | None \<Rightarrow> (case p_id p of Some v \<Rightarrow> String_id v | None \<Rightarrow> []))"

definition getProductName :: "Product \<Rightarrow> string" where
  "getProductName p =
     (case p_name p of
        Some n \<Rightarrow> n
      | None \<Rightarrow> (case p_title p of Some t \<Rightarrow> t | None \<Rightarrow> ''Product''))"

text \<open>The two local constants of \<open>getPrices\<close>, \<open>price\<close> and \<open>was\<close>, then the function.\<close>

definition getPrices_price :: "Product \<Rightarrow> rat" where
  "getPrices_price p =
     (case nullish (p_price p)
             (nullish (p_selling_price p) (nullish (p_final_price p) (p_base_price p))) of
        Some x \<Rightarrow> x
      | None \<Rightarrow> 0)"

definition getPrices_was :: "Product \<Rightarrow> rat option" where
  "getPrices_was p =
     nullish (p_compare_at_price p)
       (nullish (p_original_price p) (nullish (p_normal_price p) (p_was p)))"

definition getPrices :: "Product \<Rightarrow> rat \<times> rat option" where
  "getPrices p =
     (let price = getPrices_price p;
          was = getPrices_was p;
          safeWas = (case was of Some w \<Rightarrow> if w > price then Some w else None | None \<Rightarrow> None)
      in (price, safeWas))"

definition toSaleItem :: "Product \<Rightarrow> SaleItem" where
  "toSaleItem p =
     (let (price, was) = getPrices p;
          slug = getProductSlug p
      in \<lparr>it_id = (case p_id p of Some v \<Rightarrow> String_id v | None \<Rightarrow> slug),
          it_name = getProductName p,
          it_price = price,
          it_was = was,
          it_href = ''/product/'' @ slug,
          it_image = Some (case getProductImage p of Some u \<Rightarrow> u | None \<Rightarrow> FALLBACK_IMG),
          it_images = None,
          it_desc = p_description p,
          it_rating = p_rating p,
          it_reviews = p_reviews_count p,
          it_stock = p_stock p,
          it_sku = p_sku p,
          it_colors = Some DEF_COLORS,
          it_sizes = Some DEF_SIZES\<rparr>)"

text \<open>\<open>(data?.data ?? []).slice(0, 8).map(toSaleItem)\<close>\<close>

definition items :: "Product list option \<Rightarrow> SaleItem list" where
  "items d = map toSaleItem (take 8 (case d of None \<Rightarrow> [] | Some l \<Rightarrow> l))"

subsection \<open>The discount badge\<close>

text \<open>
  \<open>Math.max(0, Math.round(((was - price) / was) * 100))\<close>. \<open>Math.round\<close> rounds a half
  up, as \<^const>\<open>round\<close> does. A division by \<open>0\<close> is \<open>Infinity\<close> in JavaScript (the
  numerator is positive wherever the badge is shown) and \<open>0\<close> in HOL, so the model gives
  the case a value of its own.
\<close>

datatype percentage = Percent int | PercentInfinity

definition percent_off :: "rat \<Rightarrow> rat \<Rightarrow> percentage" where
  "percent_off price was =
     (if was = 0 then PercentInfinity
      else Percent (max 0 (round (((was - price) / was) * 100))))"

text \<open>The grid card: \<open>hasDiscount\<close>, \<open>disc\<close> and the badge \<open>{hasDiscount && -{disc}%}\<close>.\<close>

definition hasDiscount :: "SaleItem \<Rightarrow> bool" where
  "hasDiscount p = (case it_was p of None \<Rightarrow> False | Some w \<Rightarrow> w > it_price p)"

definition disc :: "SaleItem \<Rightarrow> percentage" where
  "disc p =
     (if hasDiscount p
      then (case it_was p of Some w \<Rightarrow> percent_off (it_price p) w | None \<Rightarrow> Percent 0)
      else Percent 0)"

definition grid_badge :: "SaleItem \<Rightarrow> percentage option" where
  "grid_badge p = (if hasDiscount p then Some (disc p) else None)"

text \<open>The modal header tests \<open>typeof active.was === "number" && active.was > active.price\<close> again.\<close>

definition modal_badge :: "SaleItem \<Rightarrow> percentage option" where
  "modal_badge a =
     (case it_was a of
        None \<Rightarrow> None
      | Some w \<Rightarrow> if w > it_price a then Some (percent_off (it_price a) w) else None)"

subsection \<open>The component's state and its events\<close>

text \<open>
  The state of one mounted \<open>ProductSale\<close>: the query result, the five \<open>useState\<close> cells,
  and what the component does to the world outside: the document's \<open>overflow\<close> style, the
  \<open>alert\<close> prompts shown and the \<open>cart:add\<close> events dispatched, oldest first.
\<close>

record cart_add =
  d_item :: SaleItem
  d_color :: "string option"
  d_size :: "string option"
  d_qty :: int

record sale_state =
  q_data :: "Product list option"
  q_isLoading :: bool
  q_isError :: bool
  st_active :: "SaleItem option"
  st_activeImg :: int
  st_color :: "string option"
  st_size :: "string option"
  st_qty :: int
  doc_overflow :: string
  alerts :: "string list"
  dispatched :: "cart_add list"
  mounted :: bool

datatype sale_event =
    ClickCard nat
  | ClickOverlay
  | ClickClose
  | KeyDown string
  | ClickThumb nat
  | ClickColor nat
  | ClickSize nat
  | ClickDecrease
  | ClickIncrease
  | ChangeQty string
  | ClickAddToCart
  | QueryResult "Product list option" bool bool
  | Unmount

text \<open>
  The effect on \<open>[active]\<close>. React runs the cleanup of the last run, then the body, after
  each render in which \<open>active\<close> differs from the last one, and before it handles the next
  event; the model runs both inside the step that sets \<open>active\<close>. React compares by
  reference and the model by value: where the model sees a change, React does. The
  deferred focus on the close button is not part of the state.
\<close>

definition effect_cleanup :: "sale_state \<Rightarrow> sale_state" where
  "effect_cleanup w = w\<lparr>doc_overflow := []\<rparr>"

definition effect_body :: "sale_state \<Rightarrow> sale_state" where
  "effect_body w =
     (case st_active w of
        Some a \<Rightarrow>
          w\<lparr>doc_overflow := ''hidden'',
            st_activeImg := 0,
            st_color := (case first_of (it_colors a) of Some c \<Rightarrow> Some (c_name c) | None \<Rightarrow> None),
            st_size := first_of (it_sizes a),
            st_qty := 1\<rparr>
      | None \<Rightarrow> w\<lparr>doc_overflow := []\<rparr>)"

definition setActive :: "SaleItem option \<Rightarrow> sale_state \<Rightarrow> sale_state" where
  "setActive v w =
     (if v = st_active w then w else effect_body (effect_cleanup (w\<lparr>st_active := v\<rparr>)))"

text \<open>The first render: the initial state, then the effect's body. \<open>ov\<close> is the overflow style found.\<close>

definition mount :: "Product list option \<Rightarrow> bool \<Rightarrow> bool \<Rightarrow> string \<Rightarrow> sale_state" where
  "mount d loading err ov =
     effect_body
       \<lparr>q_data = d, q_isLoading = loading, q_isError = err,
        st_active = None, st_activeImg = 0, st_color = None, st_size = None, st_qty = 1,
        doc_overflow = ov, alerts = [], dispatched = [], mounted = True\<rparr>"

text \<open>
  The skeleton and the failure message return before the grid and the modal: while the
  query is loading or has failed neither is on the page, whatever \<open>active\<close> holds.
\<close>

definition grid_rendered :: "sale_state \<Rightarrow> bool" where
  "grid_rendered w = (mounted w \<and> \<not> q_isLoading w \<and> \<not> q_isError w)"

definition modal_rendered :: "sale_state \<Rightarrow> bool" where
  "modal_rendered w = (grid_rendered w \<and> st_active w \<noteq> None)"

definition thumbs :: "SaleItem \<Rightarrow> string list" where
  "thumbs a =
     (case it_images a of
        Some xs \<Rightarrow> xs
      | None \<Rightarrow> [case it_image a of Some u \<Rightarrow> u | None \<Rightarrow> FALLBACK_IMG])"

definition color_options :: "SaleItem \<Rightarrow> Color list" where
  "color_options a = (case it_colors a of Some cs \<Rightarrow> cs | None \<Rightarrow> DEF_COLORS)"

definition size_options :: "SaleItem \<Rightarrow> string list" where
  "size_options a = (case it_sizes a of Some ss \<Rightarrow> ss | None \<Rightarrow> DEF_SIZES)"

text \<open>The quantity controls.\<close>

definition qty_decrease :: "int \<Rightarrow> int" where
  "qty_decrease q = max 1 (q - 1)"

definition qty_increase :: "int \<Rightarrow> int" where
  "qty_increase q = q + 1"

definition qty_change :: "string \<Rightarrow> int" where
  "qty_change s = (case parseInt s of None \<Rightarrow> 1 | Some v \<Rightarrow> max 1 v)"

text \<open>
  The Add to Cart button. \<open>disabled={!active.stock || active.stock <= 0}\<close>; a disabled
  button does not run its handler. The handler:
  \<open>if (!color || !size) return alert(...)\<close>, where \<open>!s\<close> holds for \<open>null\<close> and for the
  empty string; then \<open>dispatchEvent\<close> with the detail \<open>{...active, color, size, qty}\<close>
  (the item's fields, then the three state cells as they are) and \<open>setActive(null)\<close>.
\<close>

definition PROMPT :: string where
  "PROMPT = ''Please select a color and size first.''"

definition addToCart_disabled :: "SaleItem \<Rightarrow> bool" where
  "addToCart_disabled a = (case it_stock a of None \<Rightarrow> True | Some n \<Rightarrow> n = 0 \<or> n \<le> 0)"

definition addToCart_onClick :: "SaleItem \<Rightarrow> sale_state \<Rightarrow> sale_state" where
  "addToCart_onClick a w =
     (if \<not> truthy (st_color w) \<or> \<not> truthy (st_size w)
      then w\<lparr>alerts := alerts w @ [PROMPT]\<rparr>
      else setActive None
             (w\<lparr>dispatched := dispatched w @
                  [\<lparr>d_item = a, d_color = st_color w, d_size = st_size w, d_qty = st_qty w\<rparr>]\<rparr>))"

text \<open>
  One event. A control that is not on the page takes no click; the \<open>keydown\<close> listener is
  on the window from mount to unmount. The \<open>Tab\<close> branch of the listener moves the focus
  only, which is not part of the state.
\<close>

definition in_modal :: "sale_state \<Rightarrow> (SaleItem \<Rightarrow> sale_state) \<Rightarrow> sale_state" where
  "in_modal w f =
     (case st_active w of Some a \<Rightarrow> if grid_rendered w then f a else w | None \<Rightarrow> w)"

definition step :: "sale_event \<Rightarrow> sale_state \<Rightarrow> sale_state" where
  "step ev w =
     (if \<not> mounted w then w
      else case ev of
        ClickCard i \<Rightarrow>
          if grid_rendered w \<and> i < length (items (q_data w))
          then setActive (Some (items (q_data w) ! i)) w else w
      | ClickOverlay \<Rightarrow> in_modal w (\<lambda>a. setActive None w)
      | ClickClose \<Rightarrow> in_modal w (\<lambda>a. setActive None w)
      | KeyDown k \<Rightarrow> if k = ''Escape'' then setActive None w else w
      | ClickThumb i \<Rightarrow>
          in_modal w (\<lambda>a. if i < length (thumbs a) then w\<lparr>st_activeImg := int i\<rparr> else w)
      | ClickColor k \<Rightarrow>
          in_modal w (\<lambda>a. if k < length (color_options a)
                           then w\<lparr>st_color := Some (c_name (color_options a ! k))\<rparr> else w)
      | ClickSize k \<Rightarrow>
          in_modal w (\<lambda>a. if k < length (size_options a)
                           then w\<lparr>st_size := Some (size_options a ! k)\<rparr> else w)
      | ClickDecrease \<Rightarrow> in_modal w (\<lambda>a. w\<lparr>st_qty := qty_decrease (st_qty w)\<rparr>)
      | ClickIncrease \<Rightarrow> in_modal w (\<lambda>a. w\<lparr>st_qty := qty_increase (st_qty w)\<rparr>)
      | ChangeQty s \<Rightarrow> in_modal w (\<lambda>a. w\<lparr>st_qty := qty_change s\<rparr>)
      | ClickAddToCart \<Rightarrow>
          in_modal w (\<lambda>a. if addToCart_disabled a then w else addToCart_onClick a w)
      | QueryResult d loading err \<Rightarrow> w\<lparr>q_data := d, q_isLoading := loading, q_isError := err\<rparr>
      | Unmount \<Rightarrow> (effect_cleanup w)\<lparr>mounted := False\<rparr>)"

definition run :: "sale_event list \<Rightarrow> sale_state \<Rightarrow> sale_state" where
  "run evs w = foldl (\<lambda>t ev. step ev t) w evs"

subsection \<open>Invariants of the component's state\<close>

text \<open>While an item is active it has the fixed options, and the selection is among them.\<close>

definition selection_ok :: "sale_state \<Rightarrow> bool" where
  "selection_ok w =
     (case st_active w of
        None \<Rightarrow> True
      | Some a \<Rightarrow>
          it_colors a = Some DEF_COLORS \<and> it_sizes a = Some DEF_SIZES \<and>
          st_color w \<in> set (map (\<lambda>c. Some (c_name c)) DEF_COLORS) \<and>
          st_size w \<in> set (map Some DEF_SIZES))"

text \<open>The document scrolls exactly when the component is gone or shows no modal.\<close>

definition lock_ok :: "sale_state \<Rightarrow> bool" where
  "lock_ok w =
     (doc_overflow w = (if mounted w \<and> st_active w \<noteq> None then ''hidden'' else []))"

subsection \<open>A listing used in the examples\<close>

definition example_product :: Product where
  "example_product =
     \<lparr>p_id = Some (IdNumber 7), p_slug = Some ''kaos-polos'', p_name = Some ''Kaos Polos'',
      p_title = None, p_price = Some 75000, p_selling_price = None, p_final_price = None,
      p_base_price = None, p_compare_at_price = Some 100000, p_original_price = None,
      p_normal_price = None, p_was = None, p_image = None, p_thumbnail = None,
      p_images = None, p_media = None, p_description = None, p_rating = None,
      p_reviews_count = None, p_stock = Some 3, p_sku = None\<rparr>"

definition example_slide :: "string \<Rightarrow> GaleriItem" where
  "example_slide u =
     \<lparr>g_id = 1, g_title = ''Lookbook'', g_slug = ''lookbook'', g_description = [],
      g_published_at = ''2025-01-01'', g_image = ImageString u\<rparr>"

definition example_state :: sale_state where
  "example_state = step (ClickCard 0) (mount (Some [example_product]) False False [])"

section \<open>Carousel: index arithmetic\<close>

lemma js_rem_nonneg: "0 \<le> a \<Longrightarrow> 0 < b \<Longrightarrow> js_rem a b = a mod b"
  by (simp add: js_rem_def signed_modulo_int_def sgn_if)

lemma go_next_eq: "0 < n \<Longrightarrow> 0 \<le> i \<Longrightarrow> go n 1 i = (i + 1) mod int n"
  by (simp add: go_def js_rem_nonneg)

lemma go_prev_eq: "0 < n \<Longrightarrow> 0 \<le> i \<Longrightarrow> go n (- 1) i = (i - 1) mod int n"
proof -
  assume n: "0 < n" and i: "0 \<le> i"
  have "go n (- 1) i = (i - 1 + int n) mod int n"
    using n i by (simp add: go_def js_rem_nonneg)
  also have "\<dots> = (i - 1) mod int n"
    by simp
  finally show ?thesis .
qed

lemma tick_eq: "0 < n \<Longrightarrow> 0 \<le> i \<Longrightarrow> tick n i = (i + 1) mod int n"
  by (simp add: tick_def js_rem_nonneg)

lemma go_next_range: "0 < n \<Longrightarrow> 0 \<le> i \<Longrightarrow> 0 \<le> go n 1 i \<and> go n 1 i < int n"
  by (simp add: go_next_eq)

lemma go_prev_range: "0 < n \<Longrightarrow> 0 \<le> i \<Longrightarrow> 0 \<le> go n (- 1) i \<and> go n (- 1) i < int n"
  by (simp add: go_prev_eq)

lemma tick_range: "0 < n \<Longrightarrow> 0 \<le> i \<Longrightarrow> 0 \<le> tick n i \<and> tick n i < int n"
  by (simp add: tick_eq)

lemma go_next_prev: "0 < n \<Longrightarrow> 0 \<le> i \<Longrightarrow> i < int n \<Longrightarrow> go n (- 1) (go n 1 i) = i"
proof -
  assume n: "0 < n" and i: "0 \<le> i" "i < int n"
  have "go n (- 1) (go n 1 i) = ((i + 1) mod int n - 1) mod int n"
    using n i go_next_range [of n i] by (simp add: go_prev_eq go_next_eq)
  also have "\<dots> = (i + 1 - 1) mod int n"
    by (simp add: mod_diff_left_eq)
  also have "\<dots> = i"
    using i by simp
  finally show ?thesis .
qed

lemma go_prev_next: "0 < n \<Longrightarrow> 0 \<le> i \<Longrightarrow> i < int n \<Longrightarrow> go n 1 (go n (- 1) i) = i"
proof -
  assume n: "0 < n" and i: "0 \<le> i" "i < int n"
  have "go n 1 (go n (- 1) i) = ((i - 1) mod int n + 1) mod int n"
    using n i go_prev_range [of n i] by (simp add: go_prev_eq go_next_eq)
  also have "\<dots> = (i - 1 + 1) mod int n"
    by (simp add: mod_add_left_eq)
  also have "\<dots> = i"
    using i by simp
  finally show ?thesis .
qed

lemma items_static_nonempty: "0 < length (items_static images)"
  by (simp add: items_static_def split: option.split)
section \<open>Carousel: the index stays in range\<close>

lemma step_gallery_inv:
  assumes "0 \<le> g_index s" "g_index s < int (length (g_items s))"
  shows "g_items (step_gallery p ev s) = g_items s \<and> 0 \<le> g_index (step_gallery p ev s)
         \<and> g_index (step_gallery p ev s) < int (length (g_items s))"
proof -
  have n: "0 < length (g_items s)" using assms by auto
  show ?thesis
    using assms go_next_range [OF n assms(1)] go_prev_range [OF n assms(1)] tick_range [OF n assms(1)]
    by (cases ev) (simp_all add: step_gallery_def)
qed

lemma run_gallery_inv:
  "0 \<le> g_index s \<Longrightarrow> g_index s < int (length (g_items s)) \<Longrightarrow>
   g_items (run_gallery p evs s) = g_items s \<and> 0 \<le> g_index (run_gallery p evs s)
   \<and> g_index (run_gallery p evs s) < int (length (g_items s))"
proof (induction evs arbitrary: s)
  case Nil
  then show ?case by (simp add: run_gallery_def)
next
  case (Cons ev evs)
  have st: "g_items (step_gallery p ev s) = g_items s \<and> 0 \<le> g_index (step_gallery p ev s)
         \<and> g_index (step_gallery p ev s) < int (length (g_items s))"
    using step_gallery_inv [OF Cons.prems] .
  have "run_gallery p (ev # evs) s = run_gallery p evs (step_gallery p ev s)"
    by (simp add: run_gallery_def)
  then show ?case
    using Cons.IH [of "step_gallery p ev s"] st by simp
qed

lemma step_static_inv:
  assumes "0 \<le> s_index s" "s_index s < int (length (s_items s))"
  shows "s_items (step_static p ev s) = s_items s \<and> 0 \<le> s_index (step_static p ev s)
         \<and> s_index (step_static p ev s) < int (length (s_items s))"
proof -
  have n: "0 < length (s_items s)" using assms by auto
  show ?thesis
    using assms go_next_range [OF n assms(1)] go_prev_range [OF n assms(1)] tick_range [OF n assms(1)]
    by (cases ev) (simp_all add: step_static_def)
qed

lemma run_static_inv:
  "0 \<le> s_index s \<Longrightarrow> s_index s < int (length (s_items s)) \<Longrightarrow>
   s_items (run_static p evs s) = s_items s \<and> 0 \<le> s_index (run_static p evs s)
   \<and> s_index (run_static p evs s) < int (length (s_items s))"
proof (induction evs arbitrary: s)
  case Nil
  then show ?case by (simp add: run_static_def)
next
  case (Cons ev evs)
  have st: "s_items (step_static p ev s) = s_items s \<and> 0 \<le> s_index (step_static p ev s)
         \<and> s_index (step_static p ev s) < int (length (s_items s))"
    using step_static_inv [OF Cons.prems] .
  have "run_static p (ev # evs) s = run_static p evs (step_static p ev s)"
    by (simp add: run_static_def)
  then show ?case
    using Cons.IH [of "step_static p ev s"] st by simp
qed


lemma gallery_round_trip:
  assumes "0 \<le> g_index s" and "g_index s < int (length (g_items s))"
  shows "g_index (run_gallery p [ClickNext, ClickPrev] s) = g_index s
       \<and> g_index (run_gallery p [ClickPrev, ClickNext] s) = g_index s"
proof -
  have n: "0 < length (g_items s)" using assms by auto
  have k: "arrows_gallery p (s\<lparr>g_index := x\<rparr>) = arrows_gallery p s" for x
    by (simp add: arrows_gallery_def track_gallery_def)
  show ?thesis
    using go_next_prev [OF n assms] go_prev_next [OF n assms]
    by (simp add: run_gallery_def step_gallery_def k)
qed

lemma static_round_trip:
  assumes "0 \<le> s_index s" and "s_index s < int (length (s_items s))"
  shows "s_index (run_static p [ClickNext, ClickPrev] s) = s_index s
       \<and> s_index (run_static p [ClickPrev, ClickNext] s) = s_index s"
proof -
  have n: "0 < length (s_items s)" using assms by auto
  have k: "arrows_static p (s\<lparr>s_index := x\<rparr>) = arrows_static p s" for x
    by (simp add: arrows_static_def)
  show ?thesis
    using go_next_prev [OF n assms] go_prev_next [OF n assms]
    by (simp add: run_static_def step_static_def k)
qed

section \<open>Carousel: one item or none, and a change of length\<close>

lemma gallery_short_is_idle:
  assumes "length (g_items s) \<le> 1"
  shows "\<not> arrows_gallery p s \<and> \<not> dots_gallery p s \<and> \<not> timer_gallery s
         \<and> g_index (step_gallery p ev s) = g_index s"
  using assms
  by (cases ev) (simp_all add: arrows_gallery_def dots_gallery_def timer_gallery_def step_gallery_def)

lemma gallery_reset_on_length_change:
  "length (items_gallery d) \<noteq> length (g_items s) \<Longrightarrow> g_index (refetch_gallery d l e s) = 0"
  by (simp add: refetch_gallery_def Let_def)

lemma gallery_refetch_same_length:
  "length (items_gallery d) = length (g_items s) \<Longrightarrow> g_index (refetch_gallery d l e s) = g_index s"
  by (simp add: refetch_gallery_def Let_def)

section \<open>ProductSale: items and the effect on the active item\<close>

lemma toSaleItem_options:
  "it_colors (toSaleItem p) = Some DEF_COLORS \<and> it_sizes (toSaleItem p) = Some DEF_SIZES"
  by (simp add: toSaleItem_def Let_def split: prod.split)

lemma toSaleItem_prices:
  "it_price (toSaleItem p) = getPrices_price p \<and>
   it_was (toSaleItem p) =
     (case getPrices_was p of
        Some w \<Rightarrow> if w > getPrices_price p then Some w else None
      | None \<Rightarrow> None)"
  by (simp add: toSaleItem_def getPrices_def Let_def)

lemma items_nth:
  "i < length (items d) \<Longrightarrow>
   items d ! i = toSaleItem ((case d of None \<Rightarrow> [] | Some l \<Rightarrow> l) ! i)"
  by (simp add: items_def)

lemma items_options:
  "i < length (items d) \<Longrightarrow>
   it_colors (items d ! i) = Some DEF_COLORS \<and> it_sizes (items d ! i) = Some DEF_SIZES"
  by (simp add: items_nth toSaleItem_options)

lemma setActive_frame:
  "q_data (setActive v w) = q_data w \<and> q_isLoading (setActive v w) = q_isLoading w \<and>
   q_isError (setActive v w) = q_isError w \<and> alerts (setActive v w) = alerts w \<and>
   dispatched (setActive v w) = dispatched w \<and> mounted (setActive v w) = mounted w \<and>
   st_active (setActive v w) = v"
  by (simp add: setActive_def effect_body_def effect_cleanup_def split: option.split)

lemma setActive_None:
  "st_active w \<noteq> None \<Longrightarrow>
   setActive None w = w\<lparr>st_active := None, doc_overflow := []\<rparr>"
  by (auto simp add: setActive_def effect_body_def effect_cleanup_def)

lemma setActive_Some:
  "st_active w \<noteq> Some a \<Longrightarrow>
   setActive (Some a) w =
     w\<lparr>st_active := Some a, doc_overflow := ''hidden'', st_activeImg := 0,
       st_color := (case first_of (it_colors a) of Some c \<Rightarrow> Some (c_name c) | None \<Rightarrow> None),
       st_size := first_of (it_sizes a), st_qty := 1\<rparr>"
  by (auto simp add: setActive_def effect_body_def effect_cleanup_def)

lemma run_Cons: "run (ev # evs) w = run evs (step ev w)"
  by (simp add: run_def)

lemma run_snoc: "run (evs @ [ev]) w = step ev (run evs w)"
  by (simp add: run_def)

lemma run_invariant:
  assumes "\<And>ev w. P w \<Longrightarrow> P (step ev w)" and "P w"
  shows "P (run evs w)"
  using assms(2)
proof (induction evs arbitrary: w)
  case Nil
  then show ?case by (simp add: run_def)
next
  case (Cons ev evs)
  then show ?case using assms(1) by (simp add: run_Cons)
qed

section \<open>ProductSale: the invariants hold in every state the component reaches\<close>

lemma selection_ok_setActive_None: "selection_ok (setActive None w)"
  by (simp add: selection_ok_def setActive_frame)

lemma selection_ok_open:
  assumes "it_colors a = Some DEF_COLORS" and "it_sizes a = Some DEF_SIZES" and "selection_ok w"
  shows "selection_ok (setActive (Some a) w)"
proof (cases "st_active w = Some a")
  case True
  then show ?thesis using assms(3) by (simp add: setActive_def)
next
  case False
  then show ?thesis
    using assms(1,2)
    by (simp add: setActive_Some selection_ok_def first_of_def DEF_COLORS_def DEF_SIZES_def)
qed

lemma step_selection_ok:
  assumes "selection_ok w"
  shows "selection_ok (step ev w) \<and> alerts (step ev w) = alerts w"
proof (cases "mounted w")
  case False
  then show ?thesis using assms by (simp add: step_def)
next
  case True
  note m = True
  show ?thesis
  proof (cases "st_active w")
    case None
    then show ?thesis
      using assms m
      by (cases ev)
        (simp_all add: step_def in_modal_def selection_ok_setActive_None setActive_frame
          selection_ok_open items_options, simp_all add: selection_ok_def effect_cleanup_def)
  next
    case (Some a)
    have opts: "it_colors a = Some DEF_COLORS" "it_sizes a = Some DEF_SIZES"
      using assms Some by (simp_all add: selection_ok_def)
    have sel: "st_color w \<in> set (map (\<lambda>c. Some (c_name c)) DEF_COLORS)"
      "st_size w \<in> set (map Some DEF_SIZES)"
      using assms Some by (simp_all add: selection_ok_def)
    have add: "selection_ok (addToCart_onClick a w) \<and> alerts (addToCart_onClick a w) = alerts w"
      using sel
      by (auto simp add: addToCart_onClick_def truthy_def DEF_COLORS_def DEF_SIZES_def
          selection_ok_setActive_None setActive_frame)
    show ?thesis
    proof (cases ev)
      case (ClickCard i)
      then show ?thesis
        using assms m by (simp add: step_def selection_ok_open items_options setActive_frame)
    next
      case ClickOverlay
      then show ?thesis
        using assms m Some by (simp add: step_def in_modal_def selection_ok_setActive_None setActive_frame)
    next
      case ClickClose
      then show ?thesis
        using assms m Some by (simp add: step_def in_modal_def selection_ok_setActive_None setActive_frame)
    next
      case (KeyDown k)
      then show ?thesis
        using assms m by (simp add: step_def selection_ok_setActive_None setActive_frame)
    next
      case (ClickThumb i)
      then show ?thesis
        using assms m Some by (simp add: step_def in_modal_def selection_ok_def)
    next
      case (ClickColor k)
      then show ?thesis
        using assms m Some opts by (simp add: step_def in_modal_def selection_ok_def color_options_def)
    next
      case (ClickSize k)
      then show ?thesis
        using assms m Some opts by (simp add: step_def in_modal_def selection_ok_def size_options_def)
    next
      case ClickDecrease
      then show ?thesis
        using assms m Some by (simp add: step_def in_modal_def selection_ok_def)
    next
      case ClickIncrease
      then show ?thesis
        using assms m Some by (simp add: step_def in_modal_def selection_ok_def)
    next
      case (ChangeQty s)
      then show ?thesis
        using assms m Some by (simp add: step_def in_modal_def selection_ok_def)
    next
      case ClickAddToCart
      then show ?thesis
        using assms m Some add by (simp add: step_def in_modal_def)
    next
      case (QueryResult d l e)
      then show ?thesis
        using assms m Some by (simp add: step_def selection_ok_def)
    next
      case Unmount
      then show ?thesis
        using assms m Some by (simp add: step_def selection_ok_def effect_cleanup_def)
    qed
  qed
qed

lemma mount_frame:
  "st_active (mount d l e ov) = None \<and> alerts (mount d l e ov) = [] \<and>
   dispatched (mount d l e ov) = [] \<and> mounted (mount d l e ov) \<and>
   doc_overflow (mount d l e ov) = [] \<and> st_qty (mount d l e ov) = 1 \<and>
   q_data (mount d l e ov) = d"
  by (simp add: mount_def effect_body_def)

lemma reachable_selection_ok:
  "selection_ok (run evs (mount d l e ov)) \<and> alerts (run evs (mount d l e ov)) = []"
proof -
  have "selection_ok (mount d l e ov) \<and> alerts (mount d l e ov) = []"
    by (simp add: selection_ok_def mount_frame)
  then show ?thesis
    by (rule run_invariant [where P = "\<lambda>w. selection_ok w \<and> alerts w = []", rotated])
      (simp add: step_selection_ok)
qed

lemma lock_ok_setActive: "mounted w \<Longrightarrow> lock_ok w \<Longrightarrow> lock_ok (setActive v w)"
  by (cases v) (auto simp add: lock_ok_def setActive_def effect_body_def effect_cleanup_def)

lemma lock_ok_addToCart: "mounted w \<Longrightarrow> lock_ok w \<Longrightarrow> lock_ok (addToCart_onClick a w)"
proof -
  assume m: "mounted w" and w: "lock_ok w"
  have "lock_ok (w\<lparr>alerts := xs\<rparr>)" for xs using w by (simp add: lock_ok_def)
  moreover have "lock_ok (setActive None (w\<lparr>dispatched := ys\<rparr>))" for ys
    using w m by (intro lock_ok_setActive) (simp_all add: lock_ok_def)
  ultimately show ?thesis
    by (simp add: addToCart_onClick_def)
qed

lemma step_lock_ok:
  assumes "lock_ok w"
  shows "lock_ok (step ev w)"
proof (cases "mounted w")
  case False
  then show ?thesis using assms by (simp add: step_def)
next
  case True
  have upd: "lock_ok (w\<lparr>st_activeImg := x1\<rparr>)" "lock_ok (w\<lparr>st_color := x2\<rparr>)"
    "lock_ok (w\<lparr>st_size := x3\<rparr>)" "lock_ok (w\<lparr>st_qty := x4\<rparr>)"
    "lock_ok (w\<lparr>q_data := x5, q_isLoading := x6, q_isError := x7\<rparr>)"
    for x1 x2 x3 x4 x5 x6 x7
    using assms by (simp_all add: lock_ok_def)
  have un: "lock_ok ((effect_cleanup w)\<lparr>mounted := False\<rparr>)"
    by (simp add: lock_ok_def effect_cleanup_def)
  show ?thesis
    using True assms upd un
    by (cases ev)
      (simp_all add: step_def in_modal_def lock_ok_setActive lock_ok_addToCart split: option.split)
qed

lemma reachable_lock_ok: "lock_ok (run evs (mount d l e ov))"
proof -
  have "lock_ok (mount d l e ov)"
    by (simp add: lock_ok_def mount_frame)
  then show ?thesis
    by (rule run_invariant [where P = lock_ok, rotated]) (simp add: step_lock_ok)
qed

lemma qty_addToCart: "1 \<le> st_qty w \<Longrightarrow> 1 \<le> st_qty (addToCart_onClick a w)"
  by (simp add: addToCart_onClick_def setActive_def effect_body_def effect_cleanup_def)

lemma qty_setActive: "1 \<le> st_qty w \<Longrightarrow> 1 \<le> st_qty (setActive v w)"
  by (cases v) (simp_all add: setActive_def effect_body_def effect_cleanup_def)

lemma step_qty:
  assumes "1 \<le> st_qty w"
  shows "1 \<le> st_qty (step ev w)"
  using assms
  by (cases ev)
    (simp_all add: step_def in_modal_def qty_setActive qty_addToCart qty_decrease_def
      qty_increase_def qty_change_def effect_cleanup_def split: option.split)

lemma reachable_qty: "1 \<le> st_qty (run evs (mount d l e ov))"
proof -
  have "1 \<le> st_qty (mount d l e ov)"
    by (simp add: mount_frame)
  then show ?thesis
    by (rule run_invariant [where P = "\<lambda>w. 1 \<le> st_qty w", rotated]) (simp add: step_qty)
qed

section \<open>ProductSale: the discount badge\<close>

lemma badge_agree: "grid_badge it = modal_badge it"
  by (simp add: grid_badge_def modal_badge_def disc_def hasDiscount_def split: option.split)

lemma badge_shown: "grid_badge it \<noteq> None \<longleftrightarrow> (\<exists>w. it_was it = Some w \<and> it_price it < w)"
  by (simp add: grid_badge_def hasDiscount_def split: option.split)

lemma badge_value:
  "it_was it = Some w \<Longrightarrow> it_price it < w \<Longrightarrow> grid_badge it = Some (percent_off (it_price it) w)"
  by (simp add: grid_badge_def hasDiscount_def disc_def)

section \<open>ProductSale: opening and closing the modal\<close>

lemma example_state_eval:
  "st_active example_state = Some (toSaleItem example_product)"
  "st_color example_state = Some ''Navy''" "st_size example_state = Some ''S''"
  "st_qty example_state = 1" "st_activeImg example_state = 0"
  "grid_rendered example_state" "mounted example_state"
  "q_data example_state = Some [example_product]"
  "doc_overflow example_state = ''hidden''"
  "alerts example_state = []" "dispatched example_state = []"
  by (simp_all add: example_state_def step_def mount_def effect_body_def grid_rendered_def
      items_def setActive_def effect_cleanup_def toSaleItem_options first_of_def DEF_COLORS_def
      DEF_SIZES_def)

lemma example_item_enabled: "\<not> addToCart_disabled (toSaleItem example_product)"
  by (simp add: addToCart_disabled_def toSaleItem_def example_product_def Let_def split: prod.split)

lemma open_card:
  assumes "grid_rendered w" and "i < length (items (q_data w))"
    and "st_active w \<noteq> Some (items (q_data w) ! i)"
  shows "step (ClickCard i) w =
     w\<lparr>st_active := Some (items (q_data w) ! i), doc_overflow := ''hidden'', st_activeImg := 0,
       st_color := Some ''Navy'', st_size := Some ''S'', st_qty := 1\<rparr>"
proof -
  have m: "mounted w" using assms(1) by (simp add: grid_rendered_def)
  have o: "first_of (it_colors (items (q_data w) ! i)) = Some \<lparr>c_name = ''Navy'', c_hex = ''#1f2937''\<rparr>"
    "first_of (it_sizes (items (q_data w) ! i)) = Some ''S''"
    using items_options [OF assms(2)] by (simp_all add: first_of_def DEF_COLORS_def DEF_SIZES_def)
  show ?thesis
    using assms m o by (simp add: step_def setActive_Some)
qed

lemma close_leaves_none:
  "grid_rendered w \<Longrightarrow> ev \<in> {ClickClose, ClickOverlay, KeyDown ''Escape''} \<Longrightarrow>
   st_active (step ev w) = None \<and> grid_rendered (step ev w) \<and> q_data (step ev w) = q_data w"
  by (cases "st_active w") (auto simp add: step_def in_modal_def grid_rendered_def setActive_frame)

section \<open>ProductSale: reading the quantity field\<close>

lemma parseInt_examples:
  "parseInt ''abc'' = None" "parseInt [] = None" "parseInt ''7'' = Some 7"
  "parseInt ''-3'' = Some (- 3)" "parseInt '' 12px'' = Some 12"
  by (simp_all add: parseInt_def is_space_def is_digit_def digits_value_def digit_value_def Let_def)

section \<open>ProductSale: the ways out of the modal\<close>

lemma lock_ok_iff:
  "lock_ok w \<Longrightarrow>
   (mounted w \<and> st_active w \<noteq> None \<longrightarrow> doc_overflow w = ''hidden'') \<and>
   (mounted w \<and> st_active w = None \<longrightarrow> doc_overflow w = []) \<and>
   (\<not> mounted w \<longrightarrow> doc_overflow w = [])"
  by (simp add: lock_ok_def)

lemma exit_paths:
  assumes "mounted w"
  shows "st_active (step (KeyDown ''Escape'') w) = None \<and> mounted (step (KeyDown ''Escape'') w)"
    and "\<not> mounted (step Unmount w)"
    and "grid_rendered w \<Longrightarrow> st_active (step ClickClose w) = None \<and> mounted (step ClickClose w)"
    and "grid_rendered w \<Longrightarrow> st_active (step ClickOverlay w) = None \<and> mounted (step ClickOverlay w)"
    and "grid_rendered w \<Longrightarrow> (\<exists>a c s. st_active w = Some a \<and> st_color w = Some c \<and> st_size w = Some s
          \<and> c \<noteq> [] \<and> s \<noteq> [] \<and> \<not> addToCart_disabled a) \<Longrightarrow>
        st_active (step ClickAddToCart w) = None \<and> mounted (step ClickAddToCart w)"
  using assms
  by (auto simp add: step_def in_modal_def setActive_frame effect_cleanup_def addToCart_onClick_def
      truthy_def split: option.split)

section \<open>ProductSale: the Add to Cart handler\<close>

lemma selection_ok_truthy:
  "selection_ok w \<Longrightarrow> st_active w \<noteq> None \<Longrightarrow>
   truthy (st_color w) \<and> truthy (st_size w) \<and> st_color w \<noteq> None \<and> st_size w \<noteq> None"
  by (auto simp add: selection_ok_def truthy_def DEF_COLORS_def DEF_SIZES_def)

lemma addToCart_prompt:
  "st_color w = None \<or> st_size w = None \<Longrightarrow>
   addToCart_onClick a w = w\<lparr>alerts := alerts w @ [PROMPT]\<rparr>"
  by (auto simp add: addToCart_onClick_def truthy_def)

lemma addToCart_emit:
  "st_active w = Some a \<Longrightarrow> st_color w = Some c \<Longrightarrow> st_size w = Some s \<Longrightarrow> c \<noteq> [] \<Longrightarrow> s \<noteq> [] \<Longrightarrow>
   addToCart_onClick a w =
     w\<lparr>dispatched := dispatched w @
         [\<lparr>d_item = a, d_color = Some c, d_size = Some s, d_qty = st_qty w\<rparr>],
       st_active := None, doc_overflow := []\<rparr>"
  by (simp add: addToCart_onClick_def truthy_def setActive_None)

lemma addToCart_disabled_iff:
  "addToCart_disabled a \<longleftrightarrow> \<not> (\<exists>n. it_stock a = Some n \<and> 0 < n)"
  by (auto simp add: addToCart_disabled_def split: option.split)

section \<open>Properties of the two components\<close>

text \<open>
  C1. The handler of the Add to Cart button; a click on the button runs it when the
  modal is on the page and the active item's stock is a positive number, and does
  nothing when the button is disabled. With a color or a size that is null the handler
  appends the prompt and changes nothing else: no event is dispatched and the item stays
  active. This part holds for any values of the state cells; no state the component
  reaches has a null selection under an active item. In every state the component
  reaches, with a color and a size selected the click dispatches exactly one event,
  carrying the item, the color, the size and the quantity, then clears the active item
  and the scroll lock, and shows no prompt. (The handler's test \<open>!color || !size\<close>
  refuses the empty string as well as null; the names the grid offers are not empty.)
\<close>

theorem addToCart_confirm:
  "(st_color w0 = None \<or> st_size w0 = None \<longrightarrow>
        addToCart_onClick a w0 = w0\<lparr>alerts := alerts w0 @ [PROMPT]\<rparr>)
   \<and> (st_active w0 = Some a \<and> grid_rendered w0 \<and> \<not> addToCart_disabled a \<longrightarrow>
        step ClickAddToCart w0 = addToCart_onClick a w0)
   \<and> (let w = run evs (mount d l e ov) in
        st_active w = Some a \<and> grid_rendered w \<and> \<not> addToCart_disabled a
        \<and> st_color w = Some c \<and> st_size w = Some s \<longrightarrow>
          step ClickAddToCart w =
            w\<lparr>dispatched := dispatched w @
                  [\<lparr>d_item = a, d_color = Some c, d_size = Some s, d_qty = st_qty w\<rparr>],
              st_active := None, doc_overflow := []\<rparr>)
   \<and> (addToCart_disabled a \<longleftrightarrow> \<not> (\<exists>n. it_stock a = Some n \<and> 0 < n))
   \<and> (st_active w0 = Some a \<and> addToCart_disabled a \<longrightarrow> step ClickAddToCart w0 = w0)"
proof -
  define w where "w = run evs (mount d l e ov)"
  have p0: "st_color w0 = None \<or> st_size w0 = None \<longrightarrow>
        addToCart_onClick a w0 = w0\<lparr>alerts := alerts w0 @ [PROMPT]\<rparr>"
    using addToCart_prompt [of w0 a] by blast
  have p1: "st_active w0 = Some a \<and> grid_rendered w0 \<and> \<not> addToCart_disabled a \<longrightarrow>
        step ClickAddToCart w0 = addToCart_onClick a w0"
    by (simp add: step_def in_modal_def grid_rendered_def)
  have p2: "step ClickAddToCart w =
            w\<lparr>dispatched := dispatched w @
                  [\<lparr>d_item = a, d_color = Some c, d_size = Some s, d_qty = st_qty w\<rparr>],
              st_active := None, doc_overflow := []\<rparr>"
    if h: "st_active w = Some a \<and> grid_rendered w \<and> \<not> addToCart_disabled a
        \<and> st_color w = Some c \<and> st_size w = Some s"
  proof -
    have "selection_ok w"
      using reachable_selection_ok [of evs d l e ov] by (simp add: w_def)
    then have t: "truthy (st_color w) \<and> truthy (st_size w)"
      using selection_ok_truthy [of w] h by simp
    have ne: "c \<noteq> []" "s \<noteq> []"
      using t h by (simp_all add: truthy_def)
    have "step ClickAddToCart w = addToCart_onClick a w"
      using h by (simp add: step_def in_modal_def grid_rendered_def)
    then show ?thesis using h ne addToCart_emit [of w a c s] by simp
  qed
  have p3: "addToCart_disabled a \<longleftrightarrow> \<not> (\<exists>n. it_stock a = Some n \<and> 0 < n)"
    by (rule addToCart_disabled_iff)
  have p4: "st_active w0 = Some a \<and> addToCart_disabled a \<longrightarrow> step ClickAddToCart w0 = w0"
    by (simp add: step_def in_modal_def)
  show ?thesis
    unfolding Let_def w_def [symmetric] using p0 p1 p2 p3 p4 by blast
qed

theorem addToCart_confirm_witness:
  "step ClickAddToCart (example_state\<lparr>st_color := None\<rparr>) =
     example_state\<lparr>st_color := None, alerts := [PROMPT]\<rparr>
   \<and> step ClickAddToCart (example_state\<lparr>st_size := None\<rparr>) =
     example_state\<lparr>st_size := None, alerts := [PROMPT]\<rparr>
   \<and> step ClickAddToCart (run [ClickCard 0] (mount (Some [example_product]) False False [])) =
       (run [ClickCard 0] (mount (Some [example_product]) False False []))
         \<lparr>dispatched := [\<lparr>d_item = toSaleItem example_product, d_color = Some ''Navy'',
                          d_size = Some ''S'', d_qty = 1\<rparr>],
          st_active := None, doc_overflow := []\<rparr>
   \<and> \<not> addToCart_disabled (toSaleItem example_product)
   \<and> it_stock (toSaleItem example_product) = Some 3"
proof -
  let ?m = "mount (Some [example_product]) False False []"
  have r: "run [ClickCard 0] ?m = example_state"
    by (simp add: run_def example_state_def)
  have g: "grid_rendered (example_state\<lparr>st_color := None\<rparr>)"
    "grid_rendered (example_state\<lparr>st_size := None\<rparr>)"
    using example_state_eval by (simp_all add: grid_rendered_def)
  have st: "it_stock (toSaleItem example_product) = Some 3"
    by (simp add: toSaleItem_def example_product_def Let_def split: prod.split)
  have a: "step ClickAddToCart (example_state\<lparr>st_color := None\<rparr>) =
     example_state\<lparr>st_color := None, alerts := [PROMPT]\<rparr>"
    using addToCart_confirm [where ?w0.0 = "example_state\<lparr>st_color := None\<rparr>"
        and a = "toSaleItem example_product", THEN conjunct1]
      addToCart_confirm [where ?w0.0 = "example_state\<lparr>st_color := None\<rparr>"
        and a = "toSaleItem example_product", THEN conjunct2, THEN conjunct1]
      g example_state_eval example_item_enabled
    by simp
  have b: "step ClickAddToCart (example_state\<lparr>st_size := None\<rparr>) =
     example_state\<lparr>st_size := None, alerts := [PROMPT]\<rparr>"
    using addToCart_confirm [where ?w0.0 = "example_state\<lparr>st_size := None\<rparr>"
        and a = "toSaleItem example_product", THEN conjunct1]
      addToCart_confirm [where ?w0.0 = "example_state\<lparr>st_size := None\<rparr>"
        and a = "toSaleItem example_product", THEN conjunct2, THEN conjunct1]
      g example_state_eval example_item_enabled
    by simp
  have c: "step ClickAddToCart (run [ClickCard 0] ?m) =
       (run [ClickCard 0] ?m)
         \<lparr>dispatched := [\<lparr>d_item = toSaleItem example_product, d_color = Some ''Navy'',
                          d_size = Some ''S'', d_qty = 1\<rparr>],
          st_active := None, doc_overflow := []\<rparr>"
    using addToCart_confirm [where evs = "[ClickCard 0]" and d = "Some [example_product]"
        and l = False and e = False and ov = "[]" and a = "toSaleItem example_product"
        and c = "''Navy''" and s = "''S''", THEN conjunct2, THEN conjunct2, THEN conjunct1]
      r example_state_eval example_item_enabled
    by (simp add: Let_def)
  show ?thesis
    using a b c st example_item_enabled by simp
qed


text \<open>
  C3. With a single image and the default props, the static variant renders the arrows
  and the dots and arms the timer, whose tick leaves the index at \<open>0\<close>; the gallery
  variant with a single image renders neither and arms no timer (for any gallery state
  with at most one item: \<open>gallery_short_is_idle\<close>).
\<close>

theorem static_single_image_controls:
  "length (s_items (mount_static (Some [''a.jpg'']))) = 1
   \<and> arrows_static default_props (mount_static (Some [''a.jpg'']))
   \<and> dots_static default_props (mount_static (Some [''a.jpg'']))
   \<and> timer_static (mount_static (Some [''a.jpg'']))
   \<and> s_index (step_static default_props TimerTick (mount_static (Some [''a.jpg'']))) = 0
   \<and> length (g_items (mount_gallery (Some [example_slide ''a.jpg'']) False False)) = 1
   \<and> \<not> arrows_gallery default_props (mount_gallery (Some [example_slide ''a.jpg'']) False False)
   \<and> \<not> dots_gallery default_props (mount_gallery (Some [example_slide ''a.jpg'']) False False)
   \<and> \<not> timer_gallery (mount_gallery (Some [example_slide ''a.jpg'']) False False)"
  by (simp add: mount_static_def items_static_def arrows_static_def dots_static_def
      timer_static_def default_props_def step_static_def tick_def js_rem_def
      signed_modulo_int_def mount_gallery_def items_gallery_def example_slide_def
      arrows_gallery_def dots_gallery_def timer_gallery_def)

text \<open>
  C4. In a carousel of \<open>n > 1\<close> items with the index \<open>i\<close> in \<open>[0, n)\<close>, next then
  previous and previous then next both give \<open>i\<close> back, as index functions and as clicks
  on the two arrows; and after any sequence of clicks on the arrows and the dots and of
  timer ticks (and of pointer moves) the index is still in \<open>[0, n)\<close>. In the gallery
  variant and in the static one.
\<close>

theorem carousel_navigation:
  assumes "1 < n" and "0 \<le> i" and "i < int n"
  shows "go n (- 1) (go n 1 i) = i \<and> go n 1 (go n (- 1) i) = i
     \<and> (length (g_items s) = n \<and> g_index s = i \<longrightarrow>
          g_index (run_gallery p [ClickNext, ClickPrev] s) = i
          \<and> g_index (run_gallery p [ClickPrev, ClickNext] s) = i
          \<and> 0 \<le> g_index (run_gallery p evs s) \<and> g_index (run_gallery p evs s) < int n)
     \<and> (length (s_items t) = n \<and> s_index t = i \<longrightarrow>
          s_index (run_static p [ClickNext, ClickPrev] t) = i
          \<and> s_index (run_static p [ClickPrev, ClickNext] t) = i
          \<and> 0 \<le> s_index (run_static p evs t) \<and> s_index (run_static p evs t) < int n)"
proof -
  have n: "0 < n" using assms(1) by simp
  have a: "go n (- 1) (go n 1 i) = i" using go_next_prev [OF n assms(2,3)] .
  have b: "go n 1 (go n (- 1) i) = i" using go_prev_next [OF n assms(2,3)] .
  have c: "length (g_items s) = n \<and> g_index s = i \<longrightarrow>
          g_index (run_gallery p [ClickNext, ClickPrev] s) = i
          \<and> g_index (run_gallery p [ClickPrev, ClickNext] s) = i
          \<and> 0 \<le> g_index (run_gallery p evs s) \<and> g_index (run_gallery p evs s) < int n"
    using run_gallery_inv [of s p evs] gallery_round_trip [of s p] assms by auto
  have d: "length (s_items t) = n \<and> s_index t = i \<longrightarrow>
          s_index (run_static p [ClickNext, ClickPrev] t) = i
          \<and> s_index (run_static p [ClickPrev, ClickNext] t) = i
          \<and> 0 \<le> s_index (run_static p evs t) \<and> s_index (run_static p evs t) < int n"
    using run_static_inv [of t p evs] static_round_trip [of t p] assms by auto
  show ?thesis using a b c d by blast
qed

theorem carousel_navigation_witness:
  "go 3 (- 1) (go 3 1 2) = 2 \<and> go 3 1 (go 3 (- 1) 2) = 2
   \<and> s_index (run_static default_props [ClickNext, ClickPrev]
               ((mount_static (Some [''a'', ''b'', ''c'']))\<lparr>s_index := 2\<rparr>)) = 2
   \<and> 0 \<le> g_index (run_gallery default_props [ClickNext, TimerTick, ClickDot 1, ClickPrev]
                    \<lparr>g_items = [''a'', ''b'', ''c''], g_index = 2, g_paused = False,
                     g_isLoading = False, g_isError = False\<rparr>)
   \<and> g_index (run_gallery default_props [ClickNext, TimerTick, ClickDot 1, ClickPrev]
                    \<lparr>g_items = [''a'', ''b'', ''c''], g_index = 2, g_paused = False,
                     g_isLoading = False, g_isError = False\<rparr>) < 3
   \<and> 0 \<le> s_index (run_static default_props [ClickNext, TimerTick, ClickDot 1, ClickPrev]
                    ((mount_static (Some [''a'', ''b'', ''c'']))\<lparr>s_index := 2\<rparr>))
   \<and> s_index (run_static default_props [ClickNext, TimerTick, ClickDot 1, ClickPrev]
                    ((mount_static (Some [''a'', ''b'', ''c'']))\<lparr>s_index := 2\<rparr>)) < 3"
  using carousel_navigation [where n = 3 and i = 2 and p = default_props
      and evs = "[ClickNext, TimerTick, ClickDot 1, ClickPrev]"
      and s = "\<lparr>g_items = [''a'', ''b'', ''c''], g_index = 2, g_paused = False,
                  g_isLoading = False, g_isError = False\<rparr>"
      and t = "(mount_static (Some [''a'', ''b'', ''c'']))\<lparr>s_index := 2\<rparr>"]
  by (simp add: mount_static_def items_static_def)
text \<open>
  C5. After two clicks on next in a carousel of three images the index is \<open>2\<close>. When the
  items then change to two images, the static variant keeps the index \<open>2\<close>, outside
  \<open>[0, 2)\<close>, and the gallery variant sets it to \<open>0\<close> (as it does at every change of
  length: \<open>gallery_reset_on_length_change\<close>).
\<close>

theorem static_index_kept_on_length_change:
  "s_index (rerender_static (Some [''b'', ''c''])
      (run_static default_props [ClickNext, ClickNext] (mount_static (Some [''a'', ''b'', ''c''])))) = 2
   \<and> length (s_items (rerender_static (Some [''b'', ''c''])
      (run_static default_props [ClickNext, ClickNext] (mount_static (Some [''a'', ''b'', ''c'']))))) = 2
   \<and> g_index (run_gallery default_props [ClickNext, ClickNext]
        (mount_gallery (Some (map example_slide [''a'', ''b'', ''c''])) False False)) = 2
   \<and> g_index (refetch_gallery (Some (map example_slide [''b'', ''c''])) False False
      (run_gallery default_props [ClickNext, ClickNext]
        (mount_gallery (Some (map example_slide [''a'', ''b'', ''c''])) False False))) = 0"
  by (simp add: rerender_static_def run_static_def step_static_def mount_static_def items_static_def
      arrows_static_def default_props_def go_def js_rem_def signed_modulo_int_def
      refetch_gallery_def run_gallery_def step_gallery_def mount_gallery_def items_gallery_def
      example_slide_def arrows_gallery_def track_gallery_def Let_def)

text \<open>
  C6. Whatever the state before it (the selection made on another item, or left behind by
  an item that was closed), opening the modal on an item of the grid sets the image index
  to \<open>0\<close>, the color to the item's first color, the size to the item's first size and
  the quantity to \<open>1\<close>. The first part opens on an item that is not the active one; the
  second closes the modal (close button, overlay or Escape) and then opens it.
\<close>

theorem modal_open_resets_selection:
  "(grid_rendered w \<and> i < length (items (q_data w)) \<and> st_active w \<noteq> Some (items (q_data w) ! i) \<longrightarrow>
      (let a = items (q_data w) ! i; w' = step (ClickCard i) w in
         st_active w' = Some a \<and> st_activeImg w' = 0
         \<and> st_color w' = Some (c_name (hd (color_options a))) \<and> st_color w' = Some ''Navy''
         \<and> st_size w' = Some (hd (size_options a)) \<and> st_size w' = Some ''S''
         \<and> st_qty w' = 1))
   \<and> (grid_rendered w \<and> ev \<in> {ClickClose, ClickOverlay, KeyDown ''Escape''}
        \<and> j < length (items (q_data w)) \<longrightarrow>
      (let b = items (q_data w) ! j; w' = step (ClickCard j) (step ev w) in
         st_active w' = Some b \<and> st_activeImg w' = 0
         \<and> st_color w' = Some (c_name (hd (color_options b))) \<and> st_color w' = Some ''Navy''
         \<and> st_size w' = Some (hd (size_options b)) \<and> st_size w' = Some ''S''
         \<and> st_qty w' = 1))"
proof -
  have opt: "c_name (hd (color_options (items d ! k))) = ''Navy'' \<and> hd (size_options (items d ! k)) = ''S''"
    if "k < length (items d)" for d k
    using items_options [OF that]
    by (simp add: color_options_def size_options_def DEF_COLORS_def DEF_SIZES_def)
  have a: "let a = items (q_data w) ! i; w' = step (ClickCard i) w in
         st_active w' = Some a \<and> st_activeImg w' = 0
         \<and> st_color w' = Some (c_name (hd (color_options a))) \<and> st_color w' = Some ''Navy''
         \<and> st_size w' = Some (hd (size_options a)) \<and> st_size w' = Some ''S''
         \<and> st_qty w' = 1"
    if "grid_rendered w \<and> i < length (items (q_data w)) \<and> st_active w \<noteq> Some (items (q_data w) ! i)"
    using that opt [of i "q_data w"] by (simp add: open_card Let_def)
  have b: "let b = items (q_data w) ! j; w' = step (ClickCard j) (step ev w) in
         st_active w' = Some b \<and> st_activeImg w' = 0
         \<and> st_color w' = Some (c_name (hd (color_options b))) \<and> st_color w' = Some ''Navy''
         \<and> st_size w' = Some (hd (size_options b)) \<and> st_size w' = Some ''S''
         \<and> st_qty w' = 1"
    if h: "grid_rendered w \<and> ev \<in> {ClickClose, ClickOverlay, KeyDown ''Escape''}
        \<and> j < length (items (q_data w))"
  proof -
    have c: "st_active (step ev w) = None" "grid_rendered (step ev w)"
      "q_data (step ev w) = q_data w"
      using close_leaves_none [of w ev] h by simp_all
    have "step (ClickCard j) (step ev w) =
       (step ev w)\<lparr>st_active := Some (items (q_data w) ! j), doc_overflow := ''hidden'',
          st_activeImg := 0, st_color := Some ''Navy'', st_size := Some ''S'', st_qty := 1\<rparr>"
      using open_card [of "step ev w" j] c h by simp
    then show ?thesis
      using opt [of j "q_data w"] h by (simp add: Let_def)
  qed
  show ?thesis using a b by blast
qed

theorem modal_open_resets_selection_witness:
  "(let w = example_state\<lparr>st_color := Some ''Grey'', st_size := Some ''XL'', st_qty := 4, st_activeImg := 3\<rparr>;
        w' = step (ClickCard 0) (step ClickClose w) in
      st_active w' = Some (toSaleItem example_product) \<and> st_activeImg w' = 0
      \<and> st_color w' = Some ''Navy'' \<and> st_size w' = Some ''S'' \<and> st_qty w' = 1)
   \<and> (let w = (step ClickClose example_state)\<lparr>st_color := Some ''Grey'', st_qty := 9\<rparr>;
        w' = step (ClickCard 0) w in
      st_active w' = Some (toSaleItem example_product) \<and> st_activeImg w' = 0
      \<and> st_color w' = Some ''Navy'' \<and> st_size w' = Some ''S'' \<and> st_qty w' = 1)"
proof -
  let ?w = "example_state\<lparr>st_color := Some ''Grey'', st_size := Some ''XL'', st_qty := 4, st_activeImg := 3\<rparr>"
  let ?v = "(step ClickClose example_state)\<lparr>st_color := Some ''Grey'', st_qty := 9\<rparr>"
  have it: "items (Some [example_product]) = [toSaleItem example_product]"
    by (simp add: items_def)
  have w: "grid_rendered ?w" "q_data ?w = Some [example_product]"
    using example_state_eval by (simp_all add: grid_rendered_def)
  have c: "st_active (step ClickClose example_state) = None"
    "grid_rendered (step ClickClose example_state)"
    "q_data (step ClickClose example_state) = Some [example_product]"
    using close_leaves_none [of example_state ClickClose] example_state_eval by simp_all
  have v: "grid_rendered ?v" "q_data ?v = Some [example_product]" "st_active ?v = None"
    using c by (simp_all add: grid_rendered_def)
  have o: "c_name (hd (color_options (toSaleItem example_product))) = ''Navy''"
    "hd (size_options (toSaleItem example_product)) = ''S''"
    by (simp_all add: color_options_def size_options_def toSaleItem_options DEF_COLORS_def
        DEF_SIZES_def)
  have a: "let w' = step (ClickCard 0) ?v in
      st_active w' = Some (toSaleItem example_product) \<and> st_activeImg w' = 0
      \<and> st_color w' = Some ''Navy'' \<and> st_size w' = Some ''S'' \<and> st_qty w' = 1"
    using modal_open_resets_selection [where w = ?v and i = 0, THEN conjunct1] v it o
    by (simp add: Let_def)
  have b: "let w' = step (ClickCard 0) (step ClickClose ?w) in
      st_active w' = Some (toSaleItem example_product) \<and> st_activeImg w' = 0
      \<and> st_color w' = Some ''Navy'' \<and> st_size w' = Some ''S'' \<and> st_qty w' = 1"
    using modal_open_resets_selection [where w = ?w and ev = ClickClose and j = 0, THEN conjunct2] w it o
    by (simp add: Let_def)
  show ?thesis
    using a b by (simp add: Let_def)
qed

text \<open>
  C8. A card is clicked and the query then fails: the component returns the failure
  message, the dialog is no longer on the page, the item is still active and the
  document's overflow style is still \<open>hidden\<close>.
\<close>

theorem lock_outlives_dialog:
  "mounted (run [ClickCard 0, QueryResult (Some [example_product]) False True]
              (mount (Some [example_product]) False False []))
   \<and> \<not> modal_rendered (run [ClickCard 0, QueryResult (Some [example_product]) False True]
              (mount (Some [example_product]) False False []))
   \<and> st_active (run [ClickCard 0, QueryResult (Some [example_product]) False True]
              (mount (Some [example_product]) False False [])) \<noteq> None
   \<and> doc_overflow (run [ClickCard 0, QueryResult (Some [example_product]) False True]
              (mount (Some [example_product]) False False [])) = ''hidden''"
proof -
  have r: "run [ClickCard 0, QueryResult (Some [example_product]) False True]
              (mount (Some [example_product]) False False []) =
           step (QueryResult (Some [example_product]) False True) example_state"
    by (simp add: run_def example_state_def)
  show ?thesis
    unfolding r using example_state_eval
    by (simp add: step_def modal_rendered_def grid_rendered_def)
qed

text \<open>
  C9. Whatever the query returns, the grid shows at most eight items: the sale items of the
  first eight products of the listing, in the listing's order.
\<close>

theorem items_at_most_eight:
  "length (items d) \<le> 8
   \<and> length (items d) = min 8 (length (case d of None \<Rightarrow> [] | Some l \<Rightarrow> l))
   \<and> (\<forall>i<length (items d). items d ! i = toSaleItem ((case d of None \<Rightarrow> [] | Some l \<Rightarrow> l) ! i))"
  by (simp add: items_def)

theorem items_at_most_eight_witness:
  "length (items (Some (replicate 10 example_product))) = 8
   \<and> items (Some (replicate 10 example_product)) ! 7 = toSaleItem example_product"
  using items_at_most_eight [of "Some (replicate 10 example_product)"]
  by simp

end
